theory Spec2Isabelle
  imports Main "HOL-Library.Multiset" "HOL-Library.Sublist" "HOL-Library.Word"
begin

unbundle bit_operations_syntax

section \<open>Data model (package models)\<close>

text \<open>
  Go strings are byte strings: \<^typ>\<open>string\<close>. A Go slice is a list (a nil slice and an
  empty slice are both \<open>[]\<close>: the code only takes \<open>len\<close>, ranges and indexes).
  A Go \<open>int\<close> is an \<^typ>\<open>int\<close>; no arithmetic of the pipeline comes near the
  64-bit bound. The one \<open>float64\<close> field, \<open>Experience\<close>, is kept as its 64 bits (no
  operation on it is modelled). A Go \<open>error\<close> value is modelled by its message.
\<close>

record Education =
  Degree :: string
  Field :: string
  Institution :: string
  Year :: int

record WorkExperience =
  WTitle :: string
  WCompany :: string
  WLocation :: string
  StartDate :: string
  EndDate :: string
  WDescription :: string
  WSkills :: "string list"

record UserProfile =
  Name :: string
  Email :: string
  Phone :: string
  Summary :: string
  Title :: string
  Experience :: "64 word"
  Skills :: "string list"
  TechnicalStack :: "string list"
  Languages :: "string list"
  PreferredRoles :: "string list"
  PreferredLocations :: "string list"
  PreferredRemoteModes :: "string list"
  PreferredJobTypes :: "string list"
  MinSalary :: int
  MaxSalary :: int
  Currency :: string
  EducationList :: "Education list"
  WorkHistory :: "WorkExperience list"
  Certifications :: "string list"
  Achievements :: "string list"

record JobSearchFilter =
  Locations :: "string list"
  RemoteModes :: "string list"
  JobTypes :: "string list"
  FMinSalary :: int
  FMaxSalary :: int
  FCurrency :: string
  DatePosted :: string

record JobPosting =
  JTitle :: string
  Company :: string
  Description :: string
  Location :: string
  WorkType :: string
  SiteSetting :: string
  JURL :: string
  Source :: string
  Tags :: "string list"
  Salary :: string
  JDatePosted :: string
  ApplicationURL :: string
  Requirements :: string
  Benefits :: "string list"
  ExperienceLevel :: string

text \<open>\<open>RankedJob\<close> embeds \<open>JobPosting\<close> and adds the score and its reason.\<close>

record RankedJob =
  Posting :: JobPosting
  MatchScore :: int
  MatchReason :: string

record FetchPageResponse =
  HTML :: string
  URL :: string
  Error :: string

text \<open>The zero value \<open>models.UserProfile{}\<close>.\<close>

definition empty_profile :: UserProfile where
  "empty_profile =
     \<lparr>Name = [], Email = [], Phone = [], Summary = [], Title = [], Experience = 0,
      Skills = [], TechnicalStack = [], Languages = [], PreferredRoles = [],
      PreferredLocations = [], PreferredRemoteModes = [], PreferredJobTypes = [],
      MinSalary = 0, MaxSalary = 0, Currency = [], EducationList = [], WorkHistory = [],
      Certifications = [], Achievements = []\<rparr>"

definition empty_filter :: JobSearchFilter where
  "empty_filter =
     \<lparr>Locations = [], RemoteModes = [], JobTypes = [], FMinSalary = 0, FMaxSalary = 0,
      FCurrency = [], DatePosted = []\<rparr>"

definition empty_posting :: JobPosting where
  "empty_posting =
     \<lparr>JTitle = [], Company = [], Description = [], Location = [], WorkType = [],
      SiteSetting = [], JURL = [], Source = [], Tags = [], Salary = [], JDatePosted = [],
      ApplicationURL = [], Requirements = [], Benefits = [], ExperienceLevel = []\<rparr>"

subsection \<open>Work-type and site-setting constants and normalisation\<close>

definition WorkTypeFullTime :: string where "WorkTypeFullTime = ''full_time''"
definition WorkTypePartTime :: string where "WorkTypePartTime = ''part_time''"
definition WorkTypeContract :: string where "WorkTypeContract = ''contract''"
definition WorkTypeInternship :: string where "WorkTypeInternship = ''internship''"
definition WorkTypeFreelance :: string where "WorkTypeFreelance = ''freelance''"

definition SiteSettingWFH :: string where "SiteSettingWFH = ''WFH''"
definition SiteSettingWFO :: string where "SiteSettingWFO = ''WFO''"
definition SiteSettingHybrid :: string where "SiteSettingHybrid = ''Hybrid''"
definition SiteSettingUnknown :: string where "SiteSettingUnknown = ''Unknown''"

text \<open>
  \<open>NormalizeWorkType\<close>: a \<open>switch raw\<close> whose cases compare \<open>raw\<close> with string
  constants by equality; the default returns \<open>raw\<close>.
\<close>

definition NormalizeWorkType :: "string \<Rightarrow> string" where
  "NormalizeWorkType raw =
     (if raw \<in> set [''full-time'', ''Full-Time'', ''Full Time'', ''fulltime'', ''FULL_TIME'']
        then WorkTypeFullTime
      else if raw \<in> set [''part-time'', ''Part-Time'', ''Part Time'', ''parttime'', ''PART_TIME'']
        then WorkTypePartTime
      else if raw \<in> set [''contract'', ''Contract'', ''CONTRACT'', ''contractor'']
        then WorkTypeContract
      else if raw \<in> set [''internship'', ''Internship'', ''INTERNSHIP'', ''intern'']
        then WorkTypeInternship
      else if raw \<in> set [''freelance'', ''Freelance'', ''FREELANCE'']
        then WorkTypeFreelance
      else raw)"

text \<open>\<open>NormalizeSiteSetting\<close>: the same shape; the default returns \<open>Unknown\<close>.\<close>

definition NormalizeSiteSetting :: "string \<Rightarrow> string" where
  "NormalizeSiteSetting raw =
     (if raw \<in> set [''remote'', ''Remote'', ''REMOTE'', ''work from home'', ''Work From Home'',
                     ''wfh'']
        then SiteSettingWFH
      else if raw \<in> set [''onsite'', ''Onsite'', ''ONSITE'', ''on-site'', ''On-Site'', ''office'',
                          ''Office'', ''wfo'', ''work from office'']
        then SiteSettingWFO
      else if raw \<in> set [''hybrid'', ''Hybrid'', ''HYBRID'', ''flexible'']
        then SiteSettingHybrid
      else SiteSettingUnknown)"

text \<open>
  The two tables, row by row as the \<open>case\<close> lines list them: each spelling with the
  value its case returns.
\<close>

definition work_type_table :: "(string \<times> string) list" where
  "work_type_table =
     map (\<lambda>s. (s, WorkTypeFullTime))
       [''full-time'', ''Full-Time'', ''Full Time'', ''fulltime'', ''FULL_TIME''] @
     map (\<lambda>s. (s, WorkTypePartTime))
       [''part-time'', ''Part-Time'', ''Part Time'', ''parttime'', ''PART_TIME''] @
     map (\<lambda>s. (s, WorkTypeContract)) [''contract'', ''Contract'', ''CONTRACT'', ''contractor''] @
     map (\<lambda>s. (s, WorkTypeInternship)) [''internship'', ''Internship'', ''INTERNSHIP'', ''intern''] @
     map (\<lambda>s. (s, WorkTypeFreelance)) [''freelance'', ''Freelance'', ''FREELANCE'']"

definition site_setting_table :: "(string \<times> string) list" where
  "site_setting_table =
     map (\<lambda>s. (s, SiteSettingWFH))
       [''remote'', ''Remote'', ''REMOTE'', ''work from home'', ''Work From Home'', ''wfh''] @
     map (\<lambda>s. (s, SiteSettingWFO))
       [''onsite'', ''Onsite'', ''ONSITE'', ''on-site'', ''On-Site'', ''office'', ''Office'',
        ''wfo'', ''work from office''] @
     map (\<lambda>s. (s, SiteSettingHybrid)) [''hybrid'', ''Hybrid'', ''HYBRID'', ''flexible'']"

text \<open>
  ASCII lower-casing, to say what a casing variant of a spelling is: two strings are
  casing variants of each other when they agree after lower-casing.
\<close>

definition ascii_lower :: "char \<Rightarrow> char" where
  "ascii_lower c =
     (let n = (of_char c :: nat) in if 65 \<le> n \<and> n \<le> 90 then char_of (n + 32) else c)"

definition casing_variant :: "string \<Rightarrow> string \<Rightarrow> bool" where
  "casing_variant s t = (map ascii_lower s = map ascii_lower t)"

subsection \<open>The query planner: \<open>GenerateSearchQuery\<close>\<close>

text \<open>
  The loop \<open>for i, skill := range p.Skills { if i >= 3 { break }; query += skill + " " }\<close>,
  with the index and the rest of the slice as arguments.
\<close>

fun add_skills :: "nat \<Rightarrow> string list \<Rightarrow> string \<Rightarrow> string" where
  "add_skills i [] query = query"
| "add_skills i (skill # rest) query =
     (if i \<ge> 3 then query else add_skills (i + 1) rest (query @ skill @ '' ''))"

definition GenerateSearchQuery :: "UserProfile \<Rightarrow> string" where
  "GenerateSearchQuery p =
     (let query = '''';
          query = (if Title p \<noteq> '''' then query @ Title p @ '' ''
                   else if length (PreferredRoles p) > 0 then query @ PreferredRoles p ! 0 @ '' ''
                   else query);
          query = (if length (Skills p) > 0 then add_skills 0 (Skills p) query else query);
          query = (if length (PreferredLocations p) > 0
                   then query @ PreferredLocations p ! 0 @ '' '' else query);
          query = (if length (PreferredRemoteModes p) > 0
                   then query @ PreferredRemoteModes p ! 0 @ '' '' else query)
      in query @ ''job'')"

text \<open>
  The composition as the specification words it, for comparison: title (or first
  preferred role), up to three skills, first location, first remote mode mapped to a hint
  word (WFH to remote, Hybrid to hybrid; the specification names no other hint, so other
  modes contribute nothing, as in the search tool's \<open>buildQuery\<close>), and the suffix.
\<close>

definition remote_hint :: "string \<Rightarrow> string list" where
  "remote_hint mode =
     (if mode = ''WFH'' then [''remote''] else if mode = ''Hybrid'' then [''hybrid''] else [])"

definition spec_search_parts :: "UserProfile \<Rightarrow> string list" where
  "spec_search_parts p =
     (if Title p \<noteq> '''' then [Title p] else take 1 (PreferredRoles p)) @
     take 3 (Skills p) @ take 1 (PreferredLocations p) @
     concat (map remote_hint (take 1 (PreferredRemoteModes p)))"

definition spec_search_query :: "UserProfile \<Rightarrow> string" where
  "spec_search_query p = concat (map (\<lambda>s. s @ '' '') (spec_search_parts p)) @ ''job''"

text \<open>What the planner composes: the same parts with the remote mode verbatim.\<close>

definition search_parts :: "UserProfile \<Rightarrow> string list" where
  "search_parts p =
     (if Title p \<noteq> '''' then [Title p] else take 1 (PreferredRoles p)) @
     take 3 (Skills p) @ take 1 (PreferredLocations p) @ take 1 (PreferredRemoteModes p)"

section \<open>Errors, panics and the external capabilities\<close>

text \<open>
  A Go \<open>error\<close> is its message. A call of the pipeline ends abnormally either by
  returning an error or by a run-time panic (a nil pointer dereference, a slice bound out
  of range); both are values of \<open>failure\<close>.
\<close>

type_synonym error = string

datatype failure = Failed error | Panic string

definition nil_dereference :: string where
  "nil_dereference = ''invalid memory address or nil pointer dereference''"

definition slice_out_of_range :: string where
  "slice_out_of_range = ''slice bounds out of range''"

text \<open>
  The text-generation service answers a prompt with text that the client decodes
  (\<open>extractText\<close>, \<open>cleanJSON\<close>, \<open>json.Unmarshal\<close>). The model keeps the decoded answer:
  no candidate at all, text that does not unmarshal (with the decoder's error), or the
  value it unmarshals to.
\<close>

datatype 'a reply = NoCandidates | Unparsable error | Parsed 'a

text \<open>
  The answer to the job-extraction prompt is first tried as a \<open>map[string]string\<close> with
  \<open>error = not_a_job_posting\<close>, then as a \<open>JobPosting\<close>.
\<close>

datatype extract_reply = NotAJobPosting | UnparsableJob error | ParsedJob JobPosting

record PSEItem =
  PTitle :: string
  Link :: string
  Snippet :: string

text \<open>What \<open>url.Parse\<close> keeps of a link for \<open>isPreferredDetailURL\<close>: the host and \<open>Query().Get\<close>.\<close>

record parsed_url =
  Host :: string
  QueryGet :: "string \<Rightarrow> string"

text \<open>
  What \<open>client.Do\<close> returns for a page: the status code, the bytes the body delivers and
  the error (if any) that ends the body instead of EOF.
\<close>

record http_response =
  StatusCode :: int
  Body :: string
  BodyError :: "error option"

text \<open>
  The environment of one run: the external services (each call may fail), the order in
  which the workers of each concurrent stage deliver their results (for \<open>n\<close> workers, a
  list of worker indices), the library sort behind \<open>sort.Slice\<close>, and the configured
  \<open>MaxJobResults\<close>. \<open>cleanHTML\<close> (the script/style/whitespace stripping of the fetch
  tool) is kept as a function of the environment: nothing below depends on what it
  computes.
\<close>

record env =
  generate_pdf :: "string \<Rightarrow> string \<Rightarrow> error + UserProfile reply"
  generate_cv :: "string \<Rightarrow> error + UserProfile reply"
  generate_refine :: "UserProfile option \<Rightarrow> string \<Rightarrow> error + UserProfile reply"
  generate_derive :: "string \<Rightarrow> error + UserProfile reply"
  generate_extract :: "string \<Rightarrow> string \<Rightarrow> error + extract_reply"
  generate_score :: "UserProfile \<Rightarrow> JobPosting \<Rightarrow> error + (int \<times> string) reply"
  searchPage :: "string \<Rightarrow> int \<Rightarrow> int \<Rightarrow> error + PSEItem list"
  url_Parse :: "string \<Rightarrow> parsed_url option"
  new_request_error :: "string \<Rightarrow> error option"
  client_Do :: "string \<Rightarrow> error + http_response"
  cleanHTML :: "string \<Rightarrow> string"
  fetch_order :: "nat \<Rightarrow> nat list"
  extract_order :: "nat \<Rightarrow> nat list"
  score_order :: "nat \<Rightarrow> nat list"
  sort_Slice :: "(RankedJob \<Rightarrow> RankedJob \<Rightarrow> bool) \<Rightarrow> RankedJob list \<Rightarrow> RankedJob list"
  MaxJobResults :: int

subsection \<open>String helpers of the Go library\<close>

text \<open>
  \<open>strings.ToLower\<close> on ASCII (the hosts, file names and queries it is applied to);
  \<open>strings.Contains\<close>; \<open>%d\<close> of \<open>fmt\<close>.
\<close>

definition ToLower :: "string \<Rightarrow> string" where
  "ToLower s = map ascii_lower s"

fun Contains :: "string \<Rightarrow> string \<Rightarrow> bool" where
  "Contains [] substr = (substr = [])"
| "Contains (c # s) substr = (prefix substr (c # s) \<or> Contains s substr)"

fun decimal :: "nat \<Rightarrow> string" where
  "decimal n =
     (if n < 10 then [char_of (48 + n)] else decimal (n div 10) @ [char_of (48 + n mod 10)])"

declare decimal.simps [simp del]

definition format_d :: "int \<Rightarrow> string" where
  "format_d i = (if i < 0 then CHR ''-'' # decimal (nat (- i)) else decimal (nat i))"

section \<open>Search stage (search tool)\<close>

definition jobPortalSites :: "string list" where
  "jobPortalSites =
     [''site:linkedin.com/jobs/view'', ''site:jobstreet.com'', ''site:jobstreet.co.id'',
      ''site:dealls.com/loker'', ''site:glints.com/opportunities'', ''site:kalibrr.com/c'',
      ''site:id.indeed.com'']"

record SearchInput =
  SQuery :: string
  SLocations :: "string list"
  SRemoteModes :: "string list"

text \<open>\<open>strings.Join(parts, " ")\<close>.\<close>

fun Join :: "string list \<Rightarrow> string \<Rightarrow> string" where
  "Join [] sep = []"
| "Join [x] sep = x"
| "Join (x # y # ys) sep = x @ sep @ Join (y # ys) sep"

definition buildQuery :: "SearchInput \<Rightarrow> string" where
  "buildQuery input =
     (let parts = [SQuery input];
          parts = (if \<not> Contains (ToLower (SQuery input)) ''job'' then parts @ [''job''] else parts);
          parts = (if length (SLocations input) > 0 then parts @ [SLocations input ! 0] else parts);
          parts = (if length (SRemoteModes input) > 0
                   then (let mode = SRemoteModes input ! 0
                         in if mode = ''WFH'' then parts @ [''remote'']
                            else if mode = ''Hybrid'' then parts @ [''hybrid'']
                            else parts)
                   else parts)
      in Join parts '' '')"

definition isPreferredDetailURL :: "env \<Rightarrow> string \<Rightarrow> bool" where
  "isPreferredDetailURL e link =
     (case url_Parse e link of
        None \<Rightarrow> True
      | Some u \<Rightarrow>
          (let host = ToLower (Host u)
           in if Contains host ''jobstreet'' \<and> QueryGet u ''jobId'' = '''' then False
              else if Contains host ''indeed'' \<and> QueryGet u ''vjk'' = '''' then False
              else True))"

text \<open>
  The loops of \<open>search\<close>. Their state is \<open>allItems\<close> and the \<open>seen\<close> map (a missing key
  reads as \<open>false\<close>). \<open>add_items\<close> is the loop over one page of results; \<open>search_pages\<close>
  is \<open>for start := 1; start <= 50; start += 10\<close> for one site, which stops (\<open>break\<close>)
  at a failed call or a short page; \<open>search_sites\<close> ranges over the portal sites.
\<close>

type_synonym search_state = "PSEItem list \<times> (string \<Rightarrow> bool)"

fun add_items :: "env \<Rightarrow> PSEItem list \<Rightarrow> search_state \<Rightarrow> search_state" where
  "add_items e [] st = st"
| "add_items e (item # items) (allItems, seen) =
     (if \<not> seen (Link item) \<and> isPreferredDetailURL e (Link item)
      then add_items e items (allItems @ [item], seen(Link item := True))
      else add_items e items (allItems, seen))"

function search_pages :: "env \<Rightarrow> string \<Rightarrow> int \<Rightarrow> search_state \<Rightarrow> search_state" where
  "search_pages e siteQuery start st =
     (if start \<le> 50 then
        (case searchPage e siteQuery start 10 of
           Inl err \<Rightarrow> st
         | Inr items \<Rightarrow>
             (let st' = add_items e items st
              in if length items < 10 then st' else search_pages e siteQuery (start + 10) st'))
      else st)"
  by pat_completeness auto
termination
  by (relation "measure (\<lambda>(e, q, start, st). nat (51 - start))") auto

declare search_pages.simps [simp del]

fun search_sites :: "env \<Rightarrow> string \<Rightarrow> string list \<Rightarrow> search_state \<Rightarrow> search_state" where
  "search_sites e query [] st = st"
| "search_sites e query (siteFilter # sites) st =
     search_sites e query sites (search_pages e (query @ '' '' @ siteFilter) 1 st)"

text \<open>\<open>search\<close> returns \<open>(allItems, nil)\<close>: it has no \<open>return\<close> with an error.\<close>

definition search :: "env \<Rightarrow> string \<Rightarrow> error + PSEItem list" where
  "search e query = Inr (fst (search_sites e query jobPortalSites ([], \<lambda>link. False)))"

record 'a ToolResult =
  Success :: bool
  Data :: "'a option"
  TError :: string

definition NewSuccessResult :: "'a \<Rightarrow> 'a ToolResult" where
  "NewSuccessResult d = \<lparr>Success = True, Data = Some d, TError = ''''\<rparr>"

definition NewErrorResult :: "string \<Rightarrow> 'a ToolResult" where
  "NewErrorResult errMsg = \<lparr>Success = False, Data = None, TError = errMsg\<rparr>"

record JobSearchResult =
  RTitle :: string
  RURL :: string
  RSnippet :: string

record WebSearchResponse =
  URLs :: "string list"
  SearchResults :: "JobSearchResult list"

text \<open>
  \<open>Execute\<close> of the search tool. The tools exchange JSON with their direct methods
  (\<open>SearchWithProfile\<close>, \<open>FetchURL\<close>, \<open>ExtractFromHTML\<close>, \<open>ScoreJob\<close>); marshalling
  a value and unmarshalling it again is taken to give the value back, so the model passes
  the values themselves and the marshalling errors do not arise.
\<close>

definition search_Execute :: "env \<Rightarrow> SearchInput \<Rightarrow> WebSearchResponse ToolResult" where
  "search_Execute e searchInput =
     (let query = buildQuery searchInput
      in case search e query of
           Inl err \<Rightarrow> NewErrorResult (''search failed: '' @ err)
         | Inr results \<Rightarrow>
             NewSuccessResult
               \<lparr>URLs = map Link results,
                SearchResults =
                  map (\<lambda>item. \<lparr>RTitle = PTitle item, RURL = Link item, RSnippet = Snippet item\<rparr>)
                    results\<rparr>)"

definition SearchWithProfile ::
  "env \<Rightarrow> UserProfile option \<Rightarrow> string \<Rightarrow> JobSearchFilter \<Rightarrow> error + WebSearchResponse" where
  "SearchWithProfile e profile query filters =
     (let searchInput = \<lparr>SQuery = query, SLocations = Locations filters,
                          SRemoteModes = RemoteModes filters\<rparr>;
          searchInput = (case profile of
                           Some p \<Rightarrow> if query = '''' then searchInput\<lparr>SQuery := GenerateSearchQuery p\<rparr>
                                     else searchInput
                         | None \<Rightarrow> searchInput);
          searchInput = (case profile of
                           Some p \<Rightarrow> if length (SLocations searchInput) = 0
                                     then searchInput\<lparr>SLocations := PreferredLocations p\<rparr>
                                     else searchInput
                         | None \<Rightarrow> searchInput);
          searchInput = (case profile of
                           Some p \<Rightarrow> if length (SRemoteModes searchInput) = 0
                                     then searchInput\<lparr>SRemoteModes := PreferredRemoteModes p\<rparr>
                                     else searchInput
                         | None \<Rightarrow> searchInput);
          result = search_Execute e searchInput
      in if \<not> Success result then Inl (TError result)
         else (case Data result of
                 None \<Rightarrow> Inl ''unexpected end of JSON input''
               | Some response \<Rightarrow> Inr response))"

section \<open>Fetch tool\<close>

text \<open>
  \<open>io.ReadAll(io.LimitReader(resp.Body, maxBytes))\<close>: once \<open>maxBytes\<close> bytes have been
  delivered the limited reader reports EOF; before that, an error of the body is the
  error of the read.
\<close>

definition maxBytes :: nat where
  "maxBytes = 5 * 1024 * 1024"

definition ReadAll_limited :: "http_response \<Rightarrow> error + string" where
  "ReadAll_limited resp =
     (if length (Body resp) \<ge> maxBytes then Inr (take maxBytes (Body resp))
      else (case BodyError resp of Some err \<Rightarrow> Inl err | None \<Rightarrow> Inr (Body resp)))"

definition StatusOK :: int where
  "StatusOK = 200"

definition fetchPage :: "env \<Rightarrow> string \<Rightarrow> error + string" where
  "fetchPage e pageURL =
     (case new_request_error e pageURL of
        Some err \<Rightarrow> Inl (''failed to create request: '' @ err)
      | None \<Rightarrow>
          (case client_Do e pageURL of
             Inl err \<Rightarrow> Inl (''failed to fetch page: '' @ err)
           | Inr resp \<Rightarrow>
               if StatusCode resp \<noteq> StatusOK
               then Inl (''page returned status '' @ format_d (StatusCode resp))
               else (case ReadAll_limited resp of
                       Inl err \<Rightarrow> Inl (''failed to read body: '' @ err)
                     | Inr body \<Rightarrow> Inr (cleanHTML e body))))"

definition fetch_Execute :: "env \<Rightarrow> string \<Rightarrow> FetchPageResponse ToolResult" where
  "fetch_Execute e url =
     (case fetchPage e url of
        Inl err \<Rightarrow> NewErrorResult (''fetch failed: '' @ err)
      | Inr html \<Rightarrow> NewSuccessResult \<lparr>HTML = html, URL = url, Error = ''''\<rparr>)"

definition FetchURL :: "env \<Rightarrow> string \<Rightarrow> error + FetchPageResponse" where
  "FetchURL e url =
     (let result = fetch_Execute e url
      in if \<not> Success result then Inr \<lparr>HTML = '''', URL = url, Error = TError result\<rparr>
         else (case Data result of
                 None \<Rightarrow> Inl ''unexpected end of JSON input''
               | Some response \<Rightarrow> Inr response))"

section \<open>Text-generation client (package gemini) and its tools\<close>

definition ParseCVFromPDF :: "env \<Rightarrow> string \<Rightarrow> string \<Rightarrow> error + UserProfile" where
  "ParseCVFromPDF e pdfData filename =
     (case generate_pdf e pdfData filename of
        Inl err \<Rightarrow> Inl (''failed to generate content: '' @ err)
      | Inr NoCandidates \<Rightarrow> Inl ''no response from Gemini''
      | Inr (Unparsable err) \<Rightarrow> Inl (''failed to parse profile JSON: '' @ err)
      | Inr (Parsed profile) \<Rightarrow> Inr profile)"

definition gemini_ParseCV :: "env \<Rightarrow> string \<Rightarrow> error + UserProfile" where
  "gemini_ParseCV e cvText =
     (case generate_cv e cvText of
        Inl err \<Rightarrow> Inl (''failed to generate content: '' @ err)
      | Inr NoCandidates \<Rightarrow> Inl ''no response from Gemini''
      | Inr (Unparsable err) \<Rightarrow> Inl (''failed to parse profile JSON: '' @ err)
      | Inr (Parsed profile) \<Rightarrow> Inr profile)"

text \<open>The parse-CV tool: \<open>Execute\<close> and the direct method \<open>ParseCV\<close>.\<close>

definition parse_cv_Execute :: "env \<Rightarrow> string \<Rightarrow> UserProfile ToolResult" where
  "parse_cv_Execute e cvText =
     (case gemini_ParseCV e cvText of
        Inl err \<Rightarrow> NewErrorResult (''CV parsing failed: '' @ err)
      | Inr profile \<Rightarrow> NewSuccessResult profile)"

definition ParseCV :: "env \<Rightarrow> string \<Rightarrow> error + UserProfile" where
  "ParseCV e cvText =
     (let result = parse_cv_Execute e cvText
      in if \<not> Success result then Inl (TError result)
         else (case Data result of
                 None \<Rightarrow> Inl ''unexpected end of JSON input''
               | Some profile \<Rightarrow> Inr profile))"

text \<open>
  \<open>RefineProfileWithQuery\<close> and \<open>DeriveProfileFromQuery\<close> return a pointer and an
  error; the caller assigns both, so the model keeps the pair. A failed generation
  returns \<open>(nil, err)\<close>; an answer that does not unmarshal returns the original
  profile (refine) or an empty profile (derive) with a nil error.
\<close>

definition RefineProfileWithQuery ::
  "env \<Rightarrow> UserProfile option \<Rightarrow> string \<Rightarrow> UserProfile option \<times> error option" where
  "RefineProfileWithQuery e profile query =
     (case generate_refine e profile query of
        Inl err \<Rightarrow> (None, Some (''failed to generate content: '' @ err))
      | Inr (Parsed updatedProfile) \<Rightarrow> (Some updatedProfile, None)
      | Inr _ \<Rightarrow> (profile, None))"

definition DeriveProfileFromQuery ::
  "env \<Rightarrow> string \<Rightarrow> UserProfile option \<times> error option" where
  "DeriveProfileFromQuery e query =
     (case generate_derive e query of
        Inl err \<Rightarrow> (None, Some (''failed to generate content: '' @ err))
      | Inr (Parsed profile) \<Rightarrow> (Some profile, None)
      | Inr _ \<Rightarrow> (Some empty_profile, None))"

definition maxLen :: nat where
  "maxLen = 50000"

definition ExtractJobFromHTML :: "env \<Rightarrow> string \<Rightarrow> string \<Rightarrow> error + JobPosting" where
  "ExtractJobFromHTML e html url =
     (let html = (if length html > maxLen then take maxLen html else html)
      in case generate_extract e html url of
           Inl err \<Rightarrow> Inl (''failed to generate content: '' @ err)
         | Inr NotAJobPosting \<Rightarrow> Inl ''not a job posting page''
         | Inr (UnparsableJob err) \<Rightarrow> Inl (''failed to parse job JSON: '' @ err)
         | Inr (ParsedJob job) \<Rightarrow>
             Inr (job\<lparr>JURL := url, Source := ''web'',
                      WorkType := NormalizeWorkType (WorkType job),
                      SiteSetting := NormalizeSiteSetting (SiteSetting job)\<rparr>))"

definition extract_Execute :: "env \<Rightarrow> string \<Rightarrow> string \<Rightarrow> JobPosting option ToolResult" where
  "extract_Execute e html url =
     (case ExtractJobFromHTML e html url of
        Inl err \<Rightarrow> NewErrorResult (''extraction failed: '' @ err)
      | Inr job \<Rightarrow> NewSuccessResult (Some job))"

text \<open>\<open>ExtractFromHTML\<close> returns \<open>response.Job\<close>, a pointer.\<close>

definition ExtractFromHTML :: "env \<Rightarrow> string \<Rightarrow> string \<Rightarrow> error + JobPosting option" where
  "ExtractFromHTML e html url =
     (let result = extract_Execute e html url
      in if \<not> Success result then Inl (TError result)
         else (case Data result of
                 None \<Rightarrow> Inl ''unexpected end of JSON input''
               | Some job \<Rightarrow> Inr job))"

definition ScoreJobMatch :: "env \<Rightarrow> UserProfile \<Rightarrow> JobPosting \<Rightarrow> error + int \<times> string" where
  "ScoreJobMatch e profile job =
     (case generate_score e profile job of
        Inl err \<Rightarrow> Inl (''failed to generate content: '' @ err)
      | Inr NoCandidates \<Rightarrow> Inl ''failed to parse score JSON: unexpected end of JSON input''
      | Inr (Unparsable err) \<Rightarrow> Inl (''failed to parse score JSON: '' @ err)
      | Inr (Parsed result) \<Rightarrow> Inr result)"

definition score_Execute :: "env \<Rightarrow> UserProfile \<Rightarrow> JobPosting \<Rightarrow> (int \<times> string) ToolResult" where
  "score_Execute e profile job =
     (case ScoreJobMatch e profile job of
        Inl err \<Rightarrow> NewErrorResult (''scoring failed: '' @ err)
      | Inr response \<Rightarrow> NewSuccessResult response)"

definition ScoreJob :: "env \<Rightarrow> UserProfile \<Rightarrow> JobPosting \<Rightarrow> error + int \<times> string" where
  "ScoreJob e profile job =
     (let result = score_Execute e profile job
      in if \<not> Success result then Inl (TError result)
         else (case Data result of
                 None \<Rightarrow> Inl ''unexpected end of JSON input''
               | Some response \<Rightarrow> Inr response))"

section \<open>The agent (package agent)\<close>

record SearchJobsInput =
  CVText :: string
  CVFileData :: string
  CVFileName :: string
  Query :: string
  Filters :: JobSearchFilter

record SearchStats =
  URLsFound :: nat
  PagesFetched :: nat
  JobsExtracted :: nat
  JobsScored :: nat
  JobsReturned :: nat
  FetchErrors :: nat
  ExtractErrors :: nat

text \<open>\<open>Profile\<close> is a pointer: \<open>None\<close> is \<open>nil\<close>.\<close>

record SearchJobsOutput =
  Results :: "RankedJob list"
  Profile :: "UserProfile option"
  Stats :: SearchStats

definition isPDFFile :: "string \<Rightarrow> bool" where
  "isPDFFile filename = suffix ''.pdf'' (ToLower filename)"

subsection \<open>Profile builder\<close>

text \<open>
  \<open>MergeWithFilters\<close> has a pointer receiver. Each of its six guarded assignments
  writes a field of \<open>*p\<close>: on a nil receiver the first guard that holds panics, and with
  no guard holding the call returns normally.
\<close>

definition assign_field ::
  "bool \<Rightarrow> (UserProfile \<Rightarrow> UserProfile) \<Rightarrow> failure + UserProfile option \<Rightarrow>
   failure + UserProfile option" where
  "assign_field guard upd r =
     (case r of
        Inl f \<Rightarrow> Inl f
      | Inr p \<Rightarrow>
          if guard
          then (case p of None \<Rightarrow> Inl (Panic nil_dereference) | Some q \<Rightarrow> Inr (Some (upd q)))
          else Inr p)"

definition MergeWithFilters ::
  "UserProfile option \<Rightarrow> JobSearchFilter \<Rightarrow> failure + UserProfile option" where
  "MergeWithFilters p filters =
     (assign_field (FCurrency filters \<noteq> '''') (\<lambda>q. q\<lparr>Currency := FCurrency filters\<rparr>)
     (assign_field (FMaxSalary filters > 0) (\<lambda>q. q\<lparr>MaxSalary := FMaxSalary filters\<rparr>)
     (assign_field (FMinSalary filters > 0) (\<lambda>q. q\<lparr>MinSalary := FMinSalary filters\<rparr>)
     (assign_field (length (JobTypes filters) > 0) (\<lambda>q. q\<lparr>PreferredJobTypes := JobTypes filters\<rparr>)
     (assign_field (length (RemoteModes filters) > 0)
        (\<lambda>q. q\<lparr>PreferredRemoteModes := RemoteModes filters\<rparr>)
     (assign_field (length (Locations filters) > 0)
        (\<lambda>q. q\<lparr>PreferredLocations := Locations filters\<rparr>)
     (Inr p)))))))"

text \<open>
  \<open>buildUserProfile\<close>. In modes 1 and 2 the statement
  \<open>profile, err = a.geminiClient.RefineProfileWithQuery(ctx, profile, input.Query)\<close>
  assigns both results; the \<open>if err != nil\<close> after it only logs, so \<open>profile\<close> is
  whatever pointer the call returned.
\<close>

definition buildUserProfile :: "env \<Rightarrow> SearchJobsInput \<Rightarrow> failure + UserProfile option" where
  "buildUserProfile e input =
     (let built =
        (if length (CVFileData input) > 0 \<and> isPDFFile (CVFileName input) then
           (case ParseCVFromPDF e (CVFileData input) (CVFileName input) of
              Inl err \<Rightarrow> Inl (Failed (''CV PDF parsing failed: '' @ err))
            | Inr profile \<Rightarrow>
                if Query input \<noteq> ''''
                then Inr (fst (RefineProfileWithQuery e (Some profile) (Query input)))
                else Inr (Some profile))
         else if CVText input \<noteq> '''' then
           (case ParseCV e (CVText input) of
              Inl err \<Rightarrow> Inl (Failed (''CV parsing failed: '' @ err))
            | Inr profile \<Rightarrow>
                if Query input \<noteq> ''''
                then Inr (fst (RefineProfileWithQuery e (Some profile) (Query input)))
                else Inr (Some profile))
         else if Query input \<noteq> '''' then
           (case DeriveProfileFromQuery e (Query input) of
              (profile, Some err) \<Rightarrow> Inr (Some empty_profile)
            | (profile, None) \<Rightarrow> Inr profile)
         else Inr (Some empty_profile))
      in case built of
           Inl f \<Rightarrow> Inl f
         | Inr profile \<Rightarrow> MergeWithFilters profile (Filters input))"

subsection \<open>The concurrent stages\<close>

text \<open>
  Each stage starts one worker per item, and the workers send their results on a
  channel that the stage drains after all of them are done. The order of the results is
  the order in which the workers deliver, which the run-time decides: the environment
  gives it, for \<open>n\<close> workers, as a list of worker indices; it is a delivery order when
  it names every worker exactly once.
\<close>

definition fan_in :: "nat list \<Rightarrow> 'a list \<Rightarrow> 'a list" where
  "fan_in order outs = map (\<lambda>i. outs ! i) order"

definition delivery_order :: "nat list \<Rightarrow> nat \<Rightarrow> bool" where
  "delivery_order order n = (mset order = mset [0..<n])"

definition fetch_worker :: "env \<Rightarrow> string \<Rightarrow> FetchPageResponse" where
  "fetch_worker e pageURL =
     (case FetchURL e pageURL of
        Inl err \<Rightarrow> \<lparr>HTML = '''', URL = pageURL, Error = err\<rparr>
      | Inr resp \<Rightarrow> resp)"

definition fetchPagesConcurrently :: "env \<Rightarrow> string list \<Rightarrow> FetchPageResponse list" where
  "fetchPagesConcurrently e urls =
     fan_in (fetch_order e (length urls)) (map (fetch_worker e) urls)"

definition maxJobsToExtract :: nat where
  "maxJobsToExtract = 10"

text \<open>
  The pages the extraction stage starts a worker for: the pre-filter loop and the
  truncation \<open>validPages = validPages[:maxJobsToExtract]\<close>.
\<close>

definition validPages :: "FetchPageResponse list \<Rightarrow> FetchPageResponse list" where
  "validPages pages =
     (let valid = filter (\<lambda>page. Error page = '''' \<and> HTML page \<noteq> '''') pages
      in if length valid > maxJobsToExtract then take maxJobsToExtract valid else valid)"

text \<open>A worker sends a job, or nothing (\<open>None\<close>).\<close>

definition extract_worker :: "env \<Rightarrow> FetchPageResponse \<Rightarrow> JobPosting option" where
  "extract_worker e p =
     (case ExtractFromHTML e (HTML p) (URL p) of
        Inl err \<Rightarrow> None
      | Inr job \<Rightarrow>
          (case job of
             None \<Rightarrow> None
           | Some j \<Rightarrow> if JTitle j \<noteq> '''' then Some j else None))"

definition extractJobsConcurrently :: "env \<Rightarrow> FetchPageResponse list \<Rightarrow> JobPosting list" where
  "extractJobsConcurrently e pages =
     (let workers = validPages pages
      in List.map_filter (\<lambda>sent. sent)
           (fan_in (extract_order e (length workers)) (map (extract_worker e) workers)))"

definition fallback_reason :: string where
  "fallback_reason = ''Unable to calculate match score''"

definition score_worker :: "env \<Rightarrow> UserProfile \<Rightarrow> JobPosting \<Rightarrow> RankedJob" where
  "score_worker e profile j =
     (case ScoreJob e profile j of
        Inl err \<Rightarrow> \<lparr>Posting = j, MatchScore = 50, MatchReason = fallback_reason\<rparr>
      | Inr (score, reason) \<Rightarrow> \<lparr>Posting = j, MatchScore = score, MatchReason = reason\<rparr>)"

definition scoreJobsConcurrently :: "env \<Rightarrow> UserProfile \<Rightarrow> JobPosting list \<Rightarrow> RankedJob list" where
  "scoreJobsConcurrently e profile jobs =
     fan_in (score_order e (length jobs)) (map (score_worker e profile) jobs)"

subsection \<open>\<open>SearchJobs\<close>\<close>

text \<open>
  Step 6 of \<open>SearchJobs\<close>: the threshold loop, \<open>sort.Slice\<close> with the comparison
  \<open>rankedJobs[i].MatchScore > rankedJobs[j].MatchScore\<close>, and the truncation
  \<open>rankedJobs[:maxResults]\<close>, which panics when \<open>maxResults\<close> is negative.
\<close>

definition score_less :: "RankedJob \<Rightarrow> RankedJob \<Rightarrow> bool" where
  "score_less a b = (MatchScore a > MatchScore b)"

definition rank_jobs :: "env \<Rightarrow> RankedJob list \<Rightarrow> failure + RankedJob list" where
  "rank_jobs e rankedJobs =
     (let filteredJobs = filter (\<lambda>job. MatchScore job \<ge> 50) rankedJobs;
          rankedJobs = sort_Slice e score_less filteredJobs;
          maxResults = MaxJobResults e
      in if int (length rankedJobs) > maxResults
         then (if maxResults < 0 then Inl (Panic slice_out_of_range)
               else Inr (take (nat maxResults) rankedJobs))
         else Inr rankedJobs)"

definition count_fetch_errors :: "FetchPageResponse list \<Rightarrow> SearchStats \<Rightarrow> SearchStats" where
  "count_fetch_errors fetchedPages stats =
     foldl (\<lambda>st page. if Error page \<noteq> '''' then st\<lparr>FetchErrors := FetchErrors st + 1\<rparr> else st)
       stats fetchedPages"

definition maxJobsToScore :: nat where
  "maxJobsToScore = 30"

text \<open>
  \<open>SearchJobs\<close>. After \<open>buildUserProfile\<close> the log line reads \<open>profile.Skills\<close>, which
  panics on a nil profile.
\<close>

definition SearchJobs :: "env \<Rightarrow> SearchJobsInput \<Rightarrow> failure + SearchJobsOutput" where
  "SearchJobs e input =
     (case buildUserProfile e input of
        Inl (Failed err) \<Rightarrow> Inl (Failed (''failed to build user profile: '' @ err))
      | Inl (Panic msg) \<Rightarrow> Inl (Panic msg)
      | Inr None \<Rightarrow> Inl (Panic nil_dereference)
      | Inr (Some profile) \<Rightarrow>
          (let effectiveQuery =
                 (if Query input = '''' then GenerateSearchQuery profile else Query input)
           in case SearchWithProfile e (Some profile) effectiveQuery (Filters input) of
                Inl err \<Rightarrow> Inl (Failed (''web search failed: '' @ err))
              | Inr searchResp \<Rightarrow>
                  (let stats = \<lparr>URLsFound = length (URLs searchResp), PagesFetched = 0,
                                JobsExtracted = 0, JobsScored = 0, JobsReturned = 0,
                                FetchErrors = 0, ExtractErrors = 0\<rparr>
                   in if length (URLs searchResp) = 0
                      then Inr \<lparr>Results = [], Profile = Some profile, Stats = stats\<rparr>
                      else
                        (let fetchedPages = fetchPagesConcurrently e (URLs searchResp);
                             stats = stats\<lparr>PagesFetched := length fetchedPages\<rparr>;
                             stats = count_fetch_errors fetchedPages stats;
                             jobs = extractJobsConcurrently e fetchedPages;
                             stats = stats\<lparr>JobsExtracted := length jobs\<rparr>
                         in if length jobs = 0
                            then Inr \<lparr>Results = [], Profile = Some profile, Stats = stats\<rparr>
                            else
                              (let jobs = (if length jobs > maxJobsToScore
                                           then take maxJobsToScore jobs else jobs);
                                   rankedJobs = scoreJobsConcurrently e profile jobs;
                                   stats = stats\<lparr>JobsScored := length rankedJobs\<rparr>
                               in case rank_jobs e rankedJobs of
                                    Inl f \<Rightarrow> Inl f
                                  | Inr rankedJobs \<Rightarrow>
                                      Inr \<lparr>Results = rankedJobs, Profile = Some profile,
                                           Stats = stats\<lparr>JobsReturned := length rankedJobs\<rparr>\<rparr>)))))"

section \<open>The library sort: \<open>sort.Slice\<close>\<close>

text \<open>
  Step 6 calls \<open>sort.Slice\<close> of Go's standard library, which is not part of the
  repository. Its documentation promises a sorted slice and adds: ``The sort is not
  guaranteed to be stable: equal elements may be reversed from their original order.''
  The theorems about \<open>SearchJobs\<close> below depend on the library only through that
  promise (\<open>sort_contract\<close>). To have the order the library really gives on a concrete
  slice, this section transcribes its implementation since Go 1.19, the
  pattern-defeating quicksort of \<open>sort/zsortfunc.go\<close>: \<open>Slice\<close> calls
  \<open>pdqsort_func(lessSwap{less, swap}, 0, length, bits.Len(uint(length)))\<close>.

  Slice positions are naturals (every subtraction of the Go code is on positions where
  it cannot go below zero), except the right cursor \<open>j\<close> of the two partition loops,
  which may step below \<open>i\<close> and is an integer. \<open>data.Less(i, j)\<close> is \<open>Less lt data i j\<close>
  and \<open>data.Swap(i, j)\<close> returns the new slice. Each \<open>for\<close> loop is one recursive
  function; a loop counting down to zero inclusive takes the number of iterations left.
\<close>

definition Less :: "('a \<Rightarrow> 'a \<Rightarrow> bool) \<Rightarrow> 'a list \<Rightarrow> nat \<Rightarrow> nat \<Rightarrow> bool" where
  "Less lt data i j = lt (data ! i) (data ! j)"


subsection \<open>\<open>insertionSort_func\<close>\<close>






subsection \<open>\<open>siftDown_func\<close> and \<open>heapSort_func\<close>\<close>









subsection \<open>\<open>partialInsertionSort_func\<close>\<close>











subsection \<open>\<open>breakPatterns_func\<close>\<close>








subsection \<open>\<open>choosePivot_func\<close>\<close>










subsection \<open>\<open>partition_func\<close> and \<open>partitionEqual_func\<close>\<close>

function skip_less :: "('a \<Rightarrow> 'a \<Rightarrow> bool) \<Rightarrow> nat \<Rightarrow> int \<Rightarrow> nat \<Rightarrow> 'a list \<Rightarrow> nat" where
  "skip_less lt a j i data =
     (if int i \<le> j \<and> Less lt data i a then skip_less lt a j (i + 1) data else i)"
  by pat_completeness auto
termination
  by (relation "measure (\<lambda>(lt, a, j, i, data). nat (j + 1 - int i))") auto

declare skip_less.simps [simp del]

function skip_not_less :: "('a \<Rightarrow> 'a \<Rightarrow> bool) \<Rightarrow> nat \<Rightarrow> nat \<Rightarrow> int \<Rightarrow> 'a list \<Rightarrow> int" where
  "skip_not_less lt a i j data =
     (if int i \<le> j \<and> \<not> Less lt data (nat j) a then skip_not_less lt a i (j - 1) data else j)"
  by pat_completeness auto
termination
  by (relation "measure (\<lambda>(lt, a, i, j, data). nat (j + 1 - int i))") auto

declare skip_not_less.simps [simp del]


lemma skip_less_le: "int i \<le> j + 1 \<Longrightarrow> int (skip_less lt a j i data) \<le> j + 1"
  by (induction lt a j i data rule: skip_less.induct) (subst skip_less.simps, auto)


lemma skip_not_less_ge: "int i \<le> j + 1 \<Longrightarrow> int i \<le> skip_not_less lt a i j data + 1"
  by (induction lt a i j data rule: skip_not_less.induct) (subst skip_not_less.simps, auto)














subsection \<open>\<open>pdqsort_func\<close> and \<open>Slice\<close>\<close>













section \<open>Vocabulary of the properties\<close>

text \<open>
  What the \<open>sort\<close> package promises of \<open>sort.Slice\<close> for the comparison of step 6: the
  slice afterwards holds the same elements, and no element is \<open>less\<close> than one before it.
  The package's documentation adds that the sort is not guaranteed to be stable.
\<close>

definition sort_contract ::
  "((RankedJob \<Rightarrow> RankedJob \<Rightarrow> bool) \<Rightarrow> RankedJob list \<Rightarrow> RankedJob list) \<Rightarrow> bool" where
  "sort_contract srt =
     (\<forall>xs. mset (srt score_less xs) = mset xs \<and>
           sorted_wrt (\<lambda>a b. \<not> score_less b a) (srt score_less xs))"


text \<open>A stable insertion sort, as a reference for what a stable \<open>sort.Slice\<close> would return.\<close>

fun insert_by :: "('a \<Rightarrow> 'a \<Rightarrow> bool) \<Rightarrow> 'a \<Rightarrow> 'a list \<Rightarrow> 'a list" where
  "insert_by lt x [] = [x]"
| "insert_by lt x (y # ys) = (if lt y x then y # insert_by lt x ys else x # y # ys)"

definition stable_sort_by :: "('a \<Rightarrow> 'a \<Rightarrow> bool) \<Rightarrow> 'a list \<Rightarrow> 'a list" where
  "stable_sort_by lt xs = foldr (insert_by lt) xs []"

text \<open>A fetch outcome is eligible for extraction when it has no error and some HTML.\<close>

definition eligible :: "FetchPageResponse \<Rightarrow> bool" where
  "eligible page = (Error page = '''' \<and> HTML page \<noteq> '''')"

section \<open>Concrete runs\<close>

definition demo_profile :: UserProfile where
  "demo_profile =
     empty_profile\<lparr>Title := ''Go Developer'', Skills := [''Go'', ''SQL'', ''Docker'', ''Kafka''],
                   PreferredLocations := [''Jakarta''], PreferredRemoteModes := [''WFH'']\<rparr>"

definition item_a :: PSEItem where
  "item_a = \<lparr>PTitle = ''Backend Engineer'', Link = ''https://a.example/1'', Snippet = ''Go''\<rparr>"

definition item_b :: PSEItem where
  "item_b = \<lparr>PTitle = ''Platform Engineer'', Link = ''https://b.example/2'', Snippet = ''SQL''\<rparr>"

definition item_c :: PSEItem where
  "item_c = \<lparr>PTitle = ''Gone'', Link = ''https://c.example/3'', Snippet = ''old''\<rparr>"

text \<open>
  A run in which everything answers: every portal search returns the same three links on
  its first page, the third link answers 404, the extraction names each job after its
  URL, and scoring fails for the first link and gives 80 otherwise. Workers deliver in
  reverse order.
\<close>

definition env_ok :: env where
  "env_ok =
     \<lparr>generate_pdf = (\<lambda>pdfData filename. Inr (Parsed demo_profile)),
      generate_cv = (\<lambda>cvText. Inr (Parsed demo_profile)),
      generate_refine = (\<lambda>profile query. Inr (Parsed (demo_profile\<lparr>Summary := query\<rparr>))),
      generate_derive = (\<lambda>query. Inr (Parsed demo_profile)),
      generate_extract = (\<lambda>html url. Inr (ParsedJob (empty_posting\<lparr>JTitle := url, SiteSetting := ''remote''\<rparr>))),
      generate_score = (\<lambda>profile job. if JURL job = ''https://a.example/1'' then Inl ''quota exceeded''
                                        else Inr (Parsed (80, ''good match''))),
      searchPage = (\<lambda>query start num. if start = 1 then Inr [item_a, item_b, item_c] else Inr []),
      url_Parse = (\<lambda>link. None),
      new_request_error = (\<lambda>url. None),
      client_Do = (\<lambda>url. if url = ''https://c.example/3''
                           then Inr \<lparr>StatusCode = 404, Body = ''not found'', BodyError = None\<rparr>
                           else Inr \<lparr>StatusCode = 200, Body = ''<html>job</html>'', BodyError = None\<rparr>),
      cleanHTML = (\<lambda>html. html),
      fetch_order = (\<lambda>n. rev [0..<n]),
      extract_order = (\<lambda>n. rev [0..<n]),
      score_order = (\<lambda>n. rev [0..<n]),
      sort_Slice = stable_sort_by,
      MaxJobResults = 50\<rparr>"

text \<open>The same run with the search provider unreachable: every \<open>searchPage\<close> call fails.\<close>

definition env_search_down :: env where
  "env_search_down = env_ok\<lparr>searchPage := (\<lambda>query start num. Inl ''connection refused'')\<rparr>"

text \<open>The same run with no page recognised as a job posting.\<close>

definition env_no_jobs :: env where
  "env_no_jobs = env_ok\<lparr>generate_extract := (\<lambda>html url. Inr NotAJobPosting)\<rparr>"

text \<open>The same run with the refine call failing.\<close>

definition env_refine_down :: env where
  "env_refine_down = env_ok\<lparr>generate_refine := (\<lambda>profile query. Inl ''deadline exceeded'')\<rparr>"

definition input_query :: SearchJobsInput where
  "input_query =
     \<lparr>CVText = '''', CVFileData = '''', CVFileName = '''', Query = ''golang developer jakarta'',
      Filters = empty_filter\<rparr>"

definition input_cv_query :: SearchJobsInput where
  "input_cv_query =
     \<lparr>CVText = ''Go developer, five years'', CVFileData = '''', CVFileName = '''',
      Query = ''remote golang'', Filters = empty_filter\<rparr>"





text \<open>Values that occur in the run of \<open>env_ok\<close>.\<close>

definition job_of :: "string \<Rightarrow> JobPosting" where
  "job_of url = empty_posting\<lparr>JTitle := url, SiteSetting := ''WFH'', JURL := url, Source := ''web''\<rparr>"

definition page_ok :: "string \<Rightarrow> FetchPageResponse" where
  "page_ok url = \<lparr>HTML = ''<html>job</html>'', URL = url, Error = ''''\<rparr>"

definition page_404 :: "string \<Rightarrow> FetchPageResponse" where
  "page_404 url = \<lparr>HTML = '''', URL = url, Error = ''fetch failed: page returned status 404''\<rparr>"

definition found_urls :: "string list" where
  "found_urls = [''https://a.example/1'', ''https://b.example/2'', ''https://c.example/3'']"

definition fetched_pages :: "FetchPageResponse list" where
  "fetched_pages =
     [page_404 ''https://c.example/3'', page_ok ''https://b.example/2'',
      page_ok ''https://a.example/1'']"

definition ranked_ok :: "RankedJob list" where
  "ranked_ok =
     [\<lparr>Posting = job_of ''https://b.example/2'', MatchScore = 80, MatchReason = ''good match''\<rparr>,
      \<lparr>Posting = job_of ''https://a.example/1'', MatchScore = 50, MatchReason = fallback_reason\<rparr>]"

text \<open>Numbered successful fetch outcomes, and a page server that answers 204 to everything.\<close>

definition numbered_pages :: "nat \<Rightarrow> FetchPageResponse list" where
  "numbered_pages n = map (\<lambda>i. page_ok (''https://jobs.example/'' @ decimal i)) [0..<n]"

definition env_204 :: env where
  "env_204 =
     env_ok\<lparr>client_Do :=
              (\<lambda>url. Inr \<lparr>StatusCode = 204, Body = ''<html>job</html>'', BodyError = None\<rparr>)\<rparr>"

section \<open>Lemmas about the stages\<close>

subsection \<open>Fan-in\<close>

lemma fan_in_mset:
  assumes "delivery_order order (length outs)"
  shows "mset (fan_in order outs) = mset outs"
proof -
  have "mset (fan_in order outs) = image_mset (\<lambda>i. outs ! i) (mset order)"
    by (simp add: fan_in_def)
  also have "\<dots> = image_mset (\<lambda>i. outs ! i) (mset [0..<length outs])"
    using assms by (simp add: delivery_order_def)
  also have "\<dots> = mset (map (\<lambda>i. outs ! i) [0..<length outs])"
    by simp
  also have "\<dots> = mset outs"
    by (simp add: map_nth)
  finally show ?thesis .
qed

lemma fan_in_set: "delivery_order order (length outs) \<Longrightarrow> set (fan_in order outs) = set outs"
  using fan_in_mset [of order outs] by (metis set_mset_mset)

lemma delivery_order_rev: "delivery_order (rev [0..<n]) n"
  by (simp add: delivery_order_def)

lemma mset_map_filter: "mset (List.map_filter f xs) = image_mset (the \<circ> f) (filter_mset (\<lambda>x. f x \<noteq> None) (mset xs))"
  by (induction xs) (simp_all split: option.splits)

lemma mset_map_filter_map:
  "List.map_filter (\<lambda>sent. sent) (map f xs) = List.map_filter f xs"
  by (induction xs) (simp_all split: option.splits)

subsection \<open>Scoring\<close>



subsection \<open>Fetching\<close>

lemma URL_fetch_worker: "URL (fetch_worker e url) = url"
  by (auto simp add: fetch_worker_def FetchURL_def fetch_Execute_def NewErrorResult_def
      NewSuccessResult_def Let_def split: sum.splits option.splits)

lemma count_fetch_errors_eq:
  "count_fetch_errors pages st =
     st\<lparr>FetchErrors := FetchErrors st + length (filter (\<lambda>p. Error p \<noteq> '''') pages)\<rparr>"
  unfolding count_fetch_errors_def
  by (induction pages arbitrary: st) simp_all

subsection \<open>Searching with the provider unreachable\<close>

lemma search_pages_down:
  assumes "\<forall>q start num. isl (searchPage e q start num)"
  shows "search_pages e q 1 st = st"
proof -
  from assms have "isl (searchPage e q 1 10)" by blast
  then obtain err where "searchPage e q 1 10 = Inl err"
    by (auto simp: isl_def)
  then show ?thesis by (subst search_pages.simps) simp
qed

lemma search_sites_down:
  assumes "\<forall>q start num. isl (searchPage e q start num)"
  shows "search_sites e query sites st = st"
  by (induction sites arbitrary: st) (simp_all add: search_pages_down [OF assms])

lemma search_down:
  assumes "\<forall>q start num. isl (searchPage e q start num)"
  shows "search e query = Inr []"
  by (simp add: search_def search_sites_down [OF assms])

lemma SearchWithProfile_down:
  assumes "\<forall>q start num. isl (searchPage e q start num)"
  shows "SearchWithProfile e profile query filters = Inr \<lparr>URLs = [], SearchResults = []\<rparr>"
  by (simp add: SearchWithProfile_def search_Execute_def search_down [OF assms]
      NewSuccessResult_def Let_def)

subsection \<open>Ranking\<close>

lemma mset_insert_by: "mset (insert_by lt x ys) = add_mset x (mset ys)"
  by (induction ys) simp_all

lemma mset_stable_sort_by: "mset (stable_sort_by lt xs) = mset xs"
  unfolding stable_sort_by_def by (induction xs) (simp_all add: mset_insert_by)

lemma set_insert_by: "set (insert_by lt x ys) = insert x (set ys)"
  by (induction ys) auto

lemma sorted_insert_by:
  "sorted_wrt (\<lambda>a b. \<not> score_less b a) ys \<Longrightarrow>
   sorted_wrt (\<lambda>a b. \<not> score_less b a) (insert_by score_less x ys)"
  by (induction ys) (auto simp: set_insert_by score_less_def)

lemma sorted_stable_sort_by:
  "sorted_wrt (\<lambda>a b. \<not> score_less b a) (stable_sort_by score_less xs)"
  unfolding stable_sort_by_def by (induction xs) (simp_all add: sorted_insert_by)

lemma stable_sort_contract: "sort_contract stable_sort_by"
  by (simp add: sort_contract_def mset_stable_sort_by sorted_stable_sort_by)

text \<open>What \<open>rank_jobs\<close> returns when it returns: the sorted threshold list, or a prefix of it.\<close>

lemma rank_jobs_Inr:
  assumes "rank_jobs e scored = Inr returned"
  shows "\<exists>k. returned = take k (sort_Slice e score_less (filter (\<lambda>job. MatchScore job \<ge> 50) scored)) \<and>
             k \<le> nat (MaxJobResults e) \<and>
             (int (length (sort_Slice e score_less (filter (\<lambda>job. MatchScore job \<ge> 50) scored)))
                \<le> MaxJobResults e \<longrightarrow>
              length (sort_Slice e score_less (filter (\<lambda>job. MatchScore job \<ge> 50) scored)) \<le> k)"
proof -
  let ?s = "sort_Slice e score_less (filter (\<lambda>job. MatchScore job \<ge> 50) scored)"
  from assms have "returned = ?s \<and> int (length ?s) \<le> MaxJobResults e \<or>
                   returned = take (nat (MaxJobResults e)) ?s \<and> 0 \<le> MaxJobResults e \<and>
                     int (length ?s) > MaxJobResults e"
    by (auto simp: rank_jobs_def Let_def split: if_splits)
  then show ?thesis
  proof
    assume a: "returned = ?s \<and> int (length ?s) \<le> MaxJobResults e"
    show ?thesis
      by (rule exI [of _ "length ?s"]) (use a in auto)
  next
    assume a: "returned = take (nat (MaxJobResults e)) ?s \<and> 0 \<le> MaxJobResults e \<and>
                     int (length ?s) > MaxJobResults e"
    show ?thesis
      by (rule exI [of _ "nat (MaxJobResults e)"]) (use a in auto)
  qed
qed

lemma rank_jobs_post:
  assumes c: "sort_contract (sort_Slice e)" and r: "rank_jobs e scored = Inr returned"
  shows "length returned \<le> min (nat (MaxJobResults e)) (length scored)"
    and "\<forall>j \<in> set returned. 50 \<le> MatchScore j"
    and "sorted_wrt (\<lambda>a b. MatchScore b \<le> MatchScore a) returned"
proof -
  let ?f = "filter (\<lambda>job. MatchScore job \<ge> 50) scored"
  let ?s = "sort_Slice e score_less ?f"
  from c have m: "mset ?s = mset ?f" and so: "sorted_wrt (\<lambda>a b. \<not> score_less b a) ?s"
    by (simp_all add: sort_contract_def)
  from m have len: "length ?s = length ?f" by (metis size_mset)
  from m have st: "set ?s = set ?f" by (metis set_mset_mset)
  have so': "sorted_wrt (\<lambda>a b. MatchScore b \<le> MatchScore a) ?s"
    using so by (simp add: score_less_def not_less)
  from rank_jobs_Inr [OF r] obtain k where k: "returned = take k ?s" "k \<le> nat (MaxJobResults e)"
    by blast
  have "length returned \<le> length ?f" using k len by simp
  then have l1: "length returned \<le> length scored" by (rule le_trans) (rule length_filter_le)
  have l2: "length returned \<le> nat (MaxJobResults e)" using k by simp
  from l1 l2 show "length returned \<le> min (nat (MaxJobResults e)) (length scored)"
    by simp
  from k st show "\<forall>j \<in> set returned. 50 \<le> MatchScore j"
    by (auto dest: in_set_takeD)
  from k so' show "sorted_wrt (\<lambda>a b. MatchScore b \<le> MatchScore a) returned"
    by (auto intro: sorted_wrt_take)
qed

lemma SearchJobs_Inr_cases:
  assumes "SearchJobs e input = Inr out"
  shows "(Results out = [] \<and> JobsScored (Stats out) = 0) \<or>
         (\<exists>scored. rank_jobs e scored = Inr (Results out) \<and> JobsScored (Stats out) = length scored)"
  using assms
  by (auto simp: SearchJobs_def Let_def count_fetch_errors_eq
      split: sum.splits failure.splits option.splits if_splits)

section \<open>The concrete runs, evaluated\<close>

lemma upt_small: "[0..<3] = [0, 1, 2]" "[0..<2] = [0, 1]" "[0..<1] = [0]"
  by (simp_all add: upt_rec)

lemma format_d_404: "format_d 404 = ''404''"
  by code_simp

lemma format_d_204: "format_d 204 = ''204''"
  by code_simp

lemma input_query_fields:
  "Query input_query = ''golang developer jakarta''" "Filters input_query = empty_filter"
  "CVText input_query = ''''" "CVFileData input_query = ''''"
  by (simp_all add: input_query_def)

lemma build_query_only:
  assumes "generate_derive e = (\<lambda>query. Inr (Parsed demo_profile))"
  shows "buildUserProfile e input_query = Inr (Some demo_profile)"
  by (simp add: buildUserProfile_def input_query_def assms DeriveProfileFromQuery_def
      MergeWithFilters_def assign_field_def empty_filter_def)

lemma search_env_ok:
  assumes "searchPage e = searchPage env_ok" "url_Parse e = url_Parse env_ok"
  shows "SearchWithProfile e (Some demo_profile) ''golang developer jakarta'' empty_filter =
     Inr \<lparr>URLs = found_urls,
          SearchResults =
            map (\<lambda>item. \<lparr>RTitle = PTitle item, RURL = Link item, RSnippet = Snippet item\<rparr>)
              [item_a, item_b, item_c]\<rparr>"
  by (simp add: SearchWithProfile_def search_Execute_def search_def jobPortalSites_def
      search_pages.simps isPreferredDetailURL_def assms env_ok_def NewSuccessResult_def Let_def
      item_a_def item_b_def item_c_def empty_filter_def demo_profile_def empty_profile_def
      found_urls_def)

lemma fetch_env_ok:
  assumes "client_Do e = client_Do env_ok" "new_request_error e = new_request_error env_ok"
    "cleanHTML e = cleanHTML env_ok" "fetch_order e = fetch_order env_ok"
  shows "fetchPagesConcurrently e found_urls = fetched_pages"
  by (simp add: fetchPagesConcurrently_def fetch_worker_def FetchURL_def fetch_Execute_def
      fetchPage_def ReadAll_limited_def maxBytes_def StatusOK_def fan_in_def assms env_ok_def
      upt_small NewSuccessResult_def NewErrorResult_def Let_def format_d_404 page_ok_def
      page_404_def found_urls_def fetched_pages_def)

lemma page_errors: "Error (page_ok u) = []" "Error (page_404 u) \<noteq> []"
  by (simp_all add: page_ok_def page_404_def)

lemma validPages_fetched:
  "validPages fetched_pages = [page_ok ''https://b.example/2'', page_ok ''https://a.example/1'']"
  by (simp add: validPages_def maxJobsToExtract_def page_ok_def page_404_def fetched_pages_def)

lemma extract_worker_env_ok:
  "url \<noteq> [] \<Longrightarrow> extract_worker env_ok (page_ok url) = Some (job_of url)"
  by (simp add: extract_worker_def ExtractFromHTML_def extract_Execute_def ExtractJobFromHTML_def
      maxLen_def NormalizeWorkType_def NormalizeSiteSetting_def SiteSettingWFH_def
      NewSuccessResult_def env_ok_def page_ok_def job_of_def empty_posting_def Let_def)

lemma extract_env_ok:
  "extractJobsConcurrently env_ok fetched_pages =
     [job_of ''https://a.example/1'', job_of ''https://b.example/2'']"
  by (simp add: extractJobsConcurrently_def validPages_fetched extract_worker_env_ok fan_in_def
      List.map_filter_def Let_def)
     (simp add: env_ok_def upt_small)

lemma extract_env_no_jobs: "extractJobsConcurrently env_no_jobs fetched_pages = []"
  by (simp add: extractJobsConcurrently_def validPages_fetched extract_worker_def
      ExtractFromHTML_def extract_Execute_def ExtractJobFromHTML_def NewErrorResult_def fan_in_def
      List.map_filter_def Let_def env_no_jobs_def)
     (simp add: env_ok_def upt_small)

lemma score_worker_env_ok:
  "score_worker env_ok demo_profile (job_of ''https://a.example/1'') =
     \<lparr>Posting = job_of ''https://a.example/1'', MatchScore = 50, MatchReason = fallback_reason\<rparr>"
  "score_worker env_ok demo_profile (job_of ''https://b.example/2'') =
     \<lparr>Posting = job_of ''https://b.example/2'', MatchScore = 80, MatchReason = ''good match''\<rparr>"
  by (simp_all add: score_worker_def ScoreJob_def score_Execute_def ScoreJobMatch_def
      NewSuccessResult_def NewErrorResult_def env_ok_def job_of_def empty_posting_def Let_def)

lemma score_env_ok:
  "scoreJobsConcurrently env_ok demo_profile
     [job_of ''https://a.example/1'', job_of ''https://b.example/2''] = ranked_ok"
  by (simp add: scoreJobsConcurrently_def score_worker_env_ok fan_in_def ranked_ok_def)
     (simp add: env_ok_def upt_small)

lemma rank_env_ok: "rank_jobs env_ok ranked_ok = Inr ranked_ok"
  by (simp add: rank_jobs_def env_ok_def stable_sort_by_def score_less_def ranked_ok_def Let_def)

lemma run_ok:
  "SearchJobs env_ok input_query =
     Inr \<lparr>Results = ranked_ok, Profile = Some demo_profile,
          Stats = \<lparr>URLsFound = 3, PagesFetched = 3, JobsExtracted = 2, JobsScored = 2,
                   JobsReturned = 2, FetchErrors = 1, ExtractErrors = 0\<rparr>\<rparr>"
proof -
  have b: "buildUserProfile env_ok input_query = Inr (Some demo_profile)"
    by (rule build_query_only) (simp add: env_ok_def)
  have s: "SearchWithProfile env_ok (Some demo_profile) ''golang developer jakarta'' empty_filter =
     Inr \<lparr>URLs = found_urls,
          SearchResults =
            map (\<lambda>item. \<lparr>RTitle = PTitle item, RURL = Link item, RSnippet = Snippet item\<rparr>)
              [item_a, item_b, item_c]\<rparr>"
    by (rule search_env_ok) simp_all
  have f: "fetchPagesConcurrently env_ok found_urls = fetched_pages"
    by (rule fetch_env_ok) simp_all
  have n: "length found_urls = 3" "length fetched_pages = 3" "length ranked_ok = 2"
    "length (filter (\<lambda>p. Error p \<noteq> []) fetched_pages) = 1"
    by (simp_all add: found_urls_def fetched_pages_def ranked_ok_def page_errors)
  show ?thesis
    by (simp add: SearchJobs_def b input_query_fields s f n extract_env_ok score_env_ok
        rank_env_ok maxJobsToScore_def count_fetch_errors_eq Let_def)
qed

lemma run_no_jobs:
  "SearchJobs env_no_jobs input_query =
     Inr \<lparr>Results = [], Profile = Some demo_profile,
          Stats = \<lparr>URLsFound = 3, PagesFetched = 3, JobsExtracted = 0, JobsScored = 0,
                   JobsReturned = 0, FetchErrors = 1, ExtractErrors = 0\<rparr>\<rparr>"
proof -
  have b: "buildUserProfile env_no_jobs input_query = Inr (Some demo_profile)"
    by (rule build_query_only) (simp add: env_no_jobs_def env_ok_def)
  have s: "SearchWithProfile env_no_jobs (Some demo_profile) ''golang developer jakarta'' empty_filter =
     Inr \<lparr>URLs = found_urls,
          SearchResults =
            map (\<lambda>item. \<lparr>RTitle = PTitle item, RURL = Link item, RSnippet = Snippet item\<rparr>)
              [item_a, item_b, item_c]\<rparr>"
    by (rule search_env_ok) (simp_all add: env_no_jobs_def)
  have f: "fetchPagesConcurrently env_no_jobs found_urls = fetched_pages"
    by (rule fetch_env_ok) (simp_all add: env_no_jobs_def)
  have n: "length found_urls = 3" "length fetched_pages = 3"
    "length (filter (\<lambda>p. Error p \<noteq> []) fetched_pages) = 1"
    by (simp_all add: found_urls_def fetched_pages_def page_errors)
  show ?thesis
    by (simp add: SearchJobs_def b input_query_fields s f n extract_env_no_jobs
        count_fetch_errors_eq Let_def)
qed

section \<open>The claims\<close>

subsection \<open>C1: the search provider cannot be reached\<close>

text \<open>
  C1 as stated: when the provider call fails for every scope, \<open>SearchJobs\<close> returns an
  error. It does not: \<open>search\<close> logs a failed call and goes on to the next site, and its
  only \<open>return\<close> is \<open>allItems, nil\<close>. With every call refused, the run of
  \<open>env_search_down\<close> ends with no error and an empty result.
\<close>

theorem C1_search_down_is_not_an_error:
  "searchPage env_search_down = (\<lambda>query start num. Inl ''connection refused'') \<and>
   SearchJobs env_search_down input_query =
     Inr \<lparr>Results = [], Profile = Some demo_profile,
          Stats = \<lparr>URLsFound = 0, PagesFetched = 0, JobsExtracted = 0, JobsScored = 0,
                   JobsReturned = 0, FetchErrors = 0, ExtractErrors = 0\<rparr>\<rparr>"
proof -
  have d: "\<forall>q start num. isl (searchPage env_search_down q start num)"
    by (simp add: env_search_down_def)
  have b: "buildUserProfile env_search_down input_query = Inr (Some demo_profile)"
    by (rule build_query_only) (simp add: env_search_down_def env_ok_def)
  show ?thesis
    by (simp add: SearchJobs_def b SearchWithProfile_down [OF d] Let_def)
       (simp add: env_search_down_def)
qed

text \<open>
  C1, amended: if every provider call fails, the search stage returns an empty list of
  URLs and no error, and a run whose profile was built returns an empty ranked list, the
  profile and statistics that are all zero, with a nil error.
\<close>

theorem C1_provider_failure_gives_empty_result:
  assumes "\<forall>query start num. isl (searchPage e query start num)"
    and "buildUserProfile e input = Inr (Some profile)"
  shows "search e query = Inr [] \<and>
         SearchWithProfile e (Some profile) query filters = Inr \<lparr>URLs = [], SearchResults = []\<rparr> \<and>
         SearchJobs e input =
           Inr \<lparr>Results = [], Profile = Some profile,
                Stats = \<lparr>URLsFound = 0, PagesFetched = 0, JobsExtracted = 0, JobsScored = 0,
                         JobsReturned = 0, FetchErrors = 0, ExtractErrors = 0\<rparr>\<rparr>"
  by (simp add: search_down [OF assms(1)] SearchWithProfile_down [OF assms(1)] SearchJobs_def
      assms(2) Let_def)

theorem C1_provider_failure_witness:
  "isl (searchPage env_search_down ''golang job site:jobstreet.com'' 1 10) \<and>
   buildUserProfile env_search_down input_query = Inr (Some demo_profile) \<and>
   search env_search_down ''golang job'' = Inr [] \<and>
   Results (projr (SearchJobs env_search_down input_query)) = []"
proof -
  have d: "\<forall>q start num. isl (searchPage env_search_down q start num)"
    by (simp add: env_search_down_def)
  have b: "buildUserProfile env_search_down input_query = Inr (Some demo_profile)"
    by (rule build_query_only) (simp add: env_search_down_def env_ok_def)
  from C1_provider_failure_gives_empty_result [OF d b, of "''golang job''" empty_filter] d b
  show ?thesis by simp
qed

subsection \<open>C2: the ranking postcondition\<close>

text \<open>
  C2: for every run that returns a result (no error, no panic), the returned list is no
  longer than \<open>min(maxResults, jobs scored)\<close>, every returned job has a score of at least
  50, and the scores are non-increasing. \<open>sort.Slice\<close> enters through what its package
  promises. \<open>MaxJobResults\<close> is a Go \<open>int\<close>; as a bound on a length it is read as a
  natural number (the truncation \<open>rankedJobs[:maxResults]\<close> itself panics on a negative
  value, which is then no returned result).
\<close>

theorem C2_ranking_postcondition:
  assumes "SearchJobs e input = Inr out" and "sort_contract (sort_Slice e)"
  shows "length (Results out) \<le> min (nat (MaxJobResults e)) (JobsScored (Stats out)) \<and>
         (\<forall>j \<in> set (Results out). 50 \<le> MatchScore j) \<and>
         sorted_wrt (\<lambda>a b. MatchScore b \<le> MatchScore a) (Results out)"
proof -
  from SearchJobs_Inr_cases [OF assms(1)] show ?thesis
  proof
    assume "Results out = [] \<and> JobsScored (Stats out) = 0"
    then show ?thesis by simp
  next
    assume "\<exists>scored. rank_jobs e scored = Inr (Results out) \<and> JobsScored (Stats out) = length scored"
    then obtain scored where r: "rank_jobs e scored = Inr (Results out)"
      and n: "JobsScored (Stats out) = length scored" by blast
    from rank_jobs_post [OF assms(2) r] n show ?thesis by simp
  qed
qed

theorem C2_ranking_postcondition_witness:
  "SearchJobs env_ok input_query =
     Inr \<lparr>Results = ranked_ok, Profile = Some demo_profile,
          Stats = \<lparr>URLsFound = 3, PagesFetched = 3, JobsExtracted = 2, JobsScored = 2,
                   JobsReturned = 2, FetchErrors = 1, ExtractErrors = 0\<rparr>\<rparr> \<and>
   sort_contract (sort_Slice env_ok) \<and>
   length ranked_ok \<le> min (nat (MaxJobResults env_ok)) 2 \<and>
   list_all (\<lambda>j. 50 \<le> MatchScore j) ranked_ok \<and>
   sorted_wrt (\<lambda>a b. MatchScore b \<le> MatchScore a) ranked_ok"
proof -
  have c: "sort_contract (sort_Slice env_ok)"
    using stable_sort_contract by (simp add: env_ok_def)
  from C2_ranking_postcondition [OF run_ok c] run_ok c show ?thesis
    by (simp add: list_all_iff)
qed

subsection \<open>C3: the order of equal scores\<close>




subsection \<open>C4: a failed refine call\<close>

text \<open>
  C4: with a CV and a query, a failed refine call is only logged and the unrefined
  profile is kept. The code assigns both results of the call
  (\<open>profile, err = ...RefineProfileWithQuery(...)\<close>), and a failed generation returns a
  nil profile: the parsed profile is overwritten by nil. With empty filters
  \<open>buildUserProfile\<close> then returns \<open>(nil, nil)\<close> and \<open>SearchJobs\<close> panics at its next
  line; the parsed profile of the run below is \<open>demo_profile\<close>.
\<close>

theorem C4_failed_refine_loses_profile:
  "ParseCV env_refine_down (CVText input_cv_query) = Inr demo_profile \<and>
   RefineProfileWithQuery env_refine_down (Some demo_profile) (Query input_cv_query) =
     (None, Some ''failed to generate content: deadline exceeded'') \<and>
   buildUserProfile env_refine_down input_cv_query = Inr None \<and>
   SearchJobs env_refine_down input_cv_query = Inl (Panic nil_dereference) \<and>
   buildUserProfile env_refine_down (input_cv_query\<lparr>Filters := empty_filter\<lparr>Locations := [''Jakarta'']\<rparr>\<rparr>) =
     Inl (Panic nil_dereference)"
proof -
  have p: "ParseCV env_refine_down (CVText input_cv_query) = Inr demo_profile"
    by (simp add: ParseCV_def parse_cv_Execute_def gemini_ParseCV_def NewSuccessResult_def
        env_refine_down_def env_ok_def Let_def)
  have r: "RefineProfileWithQuery env_refine_down (Some demo_profile) (Query input_cv_query) =
     (None, Some ''failed to generate content: deadline exceeded'')"
    by (simp add: RefineProfileWithQuery_def env_refine_down_def)
  have f: "CVFileData input_cv_query = []" "CVText input_cv_query \<noteq> []"
    "Query input_cv_query \<noteq> []" "Filters input_cv_query = empty_filter"
    by (simp_all add: input_cv_query_def)
  have b: "buildUserProfile env_refine_down input_cv_query = Inr None"
    by (simp add: buildUserProfile_def f p r MergeWithFilters_def assign_field_def
        empty_filter_def)
  have s: "SearchJobs env_refine_down input_cv_query = Inl (Panic nil_dereference)"
    by (simp add: SearchJobs_def b)
  have b': "buildUserProfile env_refine_down
      (input_cv_query\<lparr>Filters := empty_filter\<lparr>Locations := [''Jakarta'']\<rparr>\<rparr>) =
     Inl (Panic nil_dereference)"
    by (simp add: buildUserProfile_def f p r MergeWithFilters_def assign_field_def
        empty_filter_def)
  from p r b s b' show ?thesis by blast
qed

subsection \<open>C5: the query planner\<close>

lemma add_skills_eq:
  "add_skills i skills query = query @ concat (map (\<lambda>s. s @ '' '') (take (3 - i) skills))"
  by (induction i skills query rule: add_skills.induct) (auto simp: take_Cons')

lemma take_one: "take (Suc 0) xs = (if xs = [] then [] else [xs ! 0])"
  by (cases xs) auto

text \<open>
  C5 as stated: the planner maps the first preferred remote mode to a hint word (WFH to
  remote, Hybrid to hybrid). \<open>GenerateSearchQuery\<close> appends the mode itself; the
  mapping to hint words is in the search tool's \<open>buildQuery\<close>. For a profile that
  prefers WFH the planner's string ends in \<open>WFH job\<close>, the specified one in
  \<open>remote job\<close>.
\<close>

theorem C5_remote_mode_is_not_mapped:
  "GenerateSearchQuery demo_profile = ''Go Developer Go SQL Docker Jakarta WFH job'' \<and>
   spec_search_query demo_profile = ''Go Developer Go SQL Docker Jakarta remote job'' \<and>
   GenerateSearchQuery demo_profile \<noteq> spec_search_query demo_profile"
  by (simp add: GenerateSearchQuery_def spec_search_query_def spec_search_parts_def
      remote_hint_def demo_profile_def empty_profile_def)

text \<open>
  C5, amended: the query planner is a function of the profile alone; the generated string
  is the concatenation, each followed by one space, of the title (or, if the title is
  empty, the first preferred role), the first three skills, the first preferred location
  and the first preferred remote mode verbatim, followed by the literal \<open>job\<close>. Absent
  parts contribute nothing.
\<close>

theorem C5_query_planner_composition:
  "GenerateSearchQuery p = concat (map (\<lambda>s. s @ '' '') (search_parts p)) @ ''job''"
  by (simp add: GenerateSearchQuery_def search_parts_def add_skills_eq take_one Let_def)

theorem C5_query_planner_witness:
  "GenerateSearchQuery (empty_profile\<lparr>PreferredRoles := [''Data Engineer'', ''Analyst''],
                                        PreferredRemoteModes := [''Hybrid'', ''WFH'']\<rparr>) =
     ''Data Engineer Hybrid job''"
  using C5_query_planner_composition
    [of "empty_profile\<lparr>PreferredRoles := [''Data Engineer'', ''Analyst''],
                         PreferredRemoteModes := [''Hybrid'', ''WFH'']\<rparr>"]
  by (simp add: search_parts_def empty_profile_def)

subsection \<open>C6: normalisation of work type and site setting\<close>

lemma work_type_rows: "list_all (\<lambda>(s, v). NormalizeWorkType s = v) work_type_table"
  by (simp add: work_type_table_def NormalizeWorkType_def)

lemma site_setting_rows: "list_all (\<lambda>(s, v). NormalizeSiteSetting s = v) site_setting_table"
  by (simp add: site_setting_table_def NormalizeSiteSetting_def)

lemma work_type_keys:
  "map fst work_type_table =
     [''full-time'', ''Full-Time'', ''Full Time'', ''fulltime'', ''FULL_TIME''] @
     [''part-time'', ''Part-Time'', ''Part Time'', ''parttime'', ''PART_TIME''] @
     [''contract'', ''Contract'', ''CONTRACT'', ''contractor''] @
     [''internship'', ''Internship'', ''INTERNSHIP'', ''intern''] @
     [''freelance'', ''Freelance'', ''FREELANCE'']"
  by (simp add: work_type_table_def)

lemma site_setting_keys:
  "map fst site_setting_table =
     [''remote'', ''Remote'', ''REMOTE'', ''work from home'', ''Work From Home'', ''wfh''] @
     [''onsite'', ''Onsite'', ''ONSITE'', ''on-site'', ''On-Site'', ''office'', ''Office'',
      ''wfo'', ''work from office''] @
     [''hybrid'', ''Hybrid'', ''HYBRID'', ''flexible'']"
  by (simp add: site_setting_table_def)

lemma work_type_default:
  assumes "s \<notin> fst ` set work_type_table"
  shows "NormalizeWorkType s = s"
proof -
  have "s \<notin> set (map fst work_type_table)" unfolding set_map by (rule assms)
  then have h:
    "s \<notin> set [''full-time'', ''Full-Time'', ''Full Time'', ''fulltime'', ''FULL_TIME'']"
    "s \<notin> set [''part-time'', ''Part-Time'', ''Part Time'', ''parttime'', ''PART_TIME'']"
    "s \<notin> set [''contract'', ''Contract'', ''CONTRACT'', ''contractor'']"
    "s \<notin> set [''internship'', ''Internship'', ''INTERNSHIP'', ''intern'']"
    "s \<notin> set [''freelance'', ''Freelance'', ''FREELANCE'']"
    unfolding work_type_keys set_append Un_iff de_Morgan_disj
    by (simp_all only: not_False_eq_True)
  show ?thesis unfolding NormalizeWorkType_def by (simp only: h if_False)
qed

lemma site_setting_default:
  assumes "s \<notin> fst ` set site_setting_table"
  shows "NormalizeSiteSetting s = SiteSettingUnknown"
proof -
  have "s \<notin> set (map fst site_setting_table)" unfolding set_map by (rule assms)
  then have h:
    "s \<notin> set [''remote'', ''Remote'', ''REMOTE'', ''work from home'', ''Work From Home'', ''wfh'']"
    "s \<notin> set [''onsite'', ''Onsite'', ''ONSITE'', ''on-site'', ''On-Site'', ''office'', ''Office'',
               ''wfo'', ''work from office'']"
    "s \<notin> set [''hybrid'', ''Hybrid'', ''HYBRID'', ''flexible'']"
    unfolding site_setting_keys set_append Un_iff de_Morgan_disj
    by (simp_all only: not_False_eq_True)
  show ?thesis unfolding NormalizeSiteSetting_def by (simp only: h if_False)
qed

text \<open>
  C6 as stated: the mapping is insensitive to case and format, so any casing variant of a
  recognised synonym maps to the enum value, \<open>FULL-TIME\<close> among them. The two functions
  are \<open>switch\<close> statements over exact spellings: \<open>full-time\<close> is listed and
  \<open>FULL-TIME\<close> is not, \<open>wfh\<close> is listed and \<open>Wfh\<close> is not.
\<close>

theorem C6_normalisation_is_case_sensitive:
  "casing_variant ''FULL-TIME'' ''full-time'' \<and>
   NormalizeWorkType ''full-time'' = WorkTypeFullTime \<and>
   NormalizeWorkType ''FULL-TIME'' = ''FULL-TIME'' \<and>
   NormalizeWorkType ''FULL-TIME'' \<noteq> WorkTypeFullTime \<and>
   casing_variant ''Wfh'' ''wfh'' \<and>
   NormalizeSiteSetting ''wfh'' = SiteSettingWFH \<and>
   NormalizeSiteSetting ''Wfh'' = SiteSettingUnknown \<and>
   NormalizeSiteSetting ''Wfh'' \<noteq> SiteSettingWFH"
proof -
  have c: "casing_variant ''FULL-TIME'' ''full-time''" "casing_variant ''Wfh'' ''wfh''"
    by code_simp+
  have w: "NormalizeWorkType ''full-time'' = WorkTypeFullTime"
    "NormalizeWorkType ''FULL-TIME'' = ''FULL-TIME''"
    "NormalizeWorkType ''FULL-TIME'' \<noteq> WorkTypeFullTime"
    by (simp_all add: NormalizeWorkType_def WorkTypeFullTime_def)
  have s: "NormalizeSiteSetting ''wfh'' = SiteSettingWFH"
    "NormalizeSiteSetting ''Wfh'' = SiteSettingUnknown"
    "NormalizeSiteSetting ''Wfh'' \<noteq> SiteSettingWFH"
    by (simp_all add: NormalizeSiteSetting_def SiteSettingWFH_def SiteSettingUnknown_def)
  from c w s show ?thesis by blast
qed

text \<open>
  C6, amended: normalisation is an exact-match synonym table. Every spelling listed in
  the work-type table maps to its work-type value and every other string, the canonical
  values included, is returned unchanged; every spelling listed in the site-setting table
  maps to its site-setting value and every other string, apart from the canonical
  \<open>WFH\<close> and \<open>WFO\<close> (about which nothing is said), maps to \<open>Unknown\<close>.
\<close>

theorem C6_normalisation_exact_table:
  "((s, v) \<in> set work_type_table \<longrightarrow> NormalizeWorkType s = v) \<and>
   (s \<notin> fst ` set work_type_table \<longrightarrow> NormalizeWorkType s = s) \<and>
   ((s, v) \<in> set site_setting_table \<longrightarrow> NormalizeSiteSetting s = v) \<and>
   (s \<notin> fst ` set site_setting_table \<and> s \<noteq> SiteSettingWFH \<and> s \<noteq> SiteSettingWFO \<longrightarrow>
      NormalizeSiteSetting s = SiteSettingUnknown)"
proof -
  have 1: "(s, v) \<in> set work_type_table \<longrightarrow> NormalizeWorkType s = v"
    using work_type_rows by (auto simp: list_all_iff)
  have 2: "s \<notin> fst ` set work_type_table \<longrightarrow> NormalizeWorkType s = s"
    using work_type_default by blast
  have 3: "(s, v) \<in> set site_setting_table \<longrightarrow> NormalizeSiteSetting s = v"
    using site_setting_rows by (auto simp: list_all_iff)
  have 4: "s \<notin> fst ` set site_setting_table \<and> s \<noteq> SiteSettingWFH \<and> s \<noteq> SiteSettingWFO \<longrightarrow>
      NormalizeSiteSetting s = SiteSettingUnknown"
    using site_setting_default by blast
  from 1 2 3 4 show ?thesis by blast
qed

theorem C6_normalisation_witness:
  "(''Part Time'', WorkTypePartTime) \<in> set work_type_table \<and>
   NormalizeWorkType ''Part Time'' = WorkTypePartTime \<and>
   ''full_time'' \<notin> fst ` set work_type_table \<and>
   NormalizeWorkType ''full_time'' = ''full_time'' \<and>
   (''on-site'', SiteSettingWFO) \<in> set site_setting_table \<and>
   NormalizeSiteSetting ''on-site'' = SiteSettingWFO \<and>
   ''anywhere'' \<notin> fst ` set site_setting_table \<and>
   NormalizeSiteSetting ''anywhere'' = SiteSettingUnknown"
proof -
  have a: "(''Part Time'', WorkTypePartTime) \<in> set work_type_table"
    by (simp add: work_type_table_def)
  have b: "''full_time'' \<notin> fst ` set work_type_table"
    unfolding set_map [symmetric] work_type_keys by simp
  have c: "(''on-site'', SiteSettingWFO) \<in> set site_setting_table"
    by (simp add: site_setting_table_def)
  have d: "''anywhere'' \<notin> fst ` set site_setting_table"
    unfolding set_map [symmetric] site_setting_keys by simp
  have e: "''anywhere'' \<noteq> SiteSettingWFH" "''anywhere'' \<noteq> SiteSettingWFO"
    by (simp_all add: SiteSettingWFH_def SiteSettingWFO_def)
  from C6_normalisation_exact_table [of "''Part Time''" WorkTypePartTime] a
  have 1: "NormalizeWorkType ''Part Time'' = WorkTypePartTime" by blast
  from C6_normalisation_exact_table [of "''full_time''" "''''"] b
  have 2: "NormalizeWorkType ''full_time'' = ''full_time''" by blast
  from C6_normalisation_exact_table [of "''on-site''" SiteSettingWFO] c
  have 3: "NormalizeSiteSetting ''on-site'' = SiteSettingWFO" by blast
  from C6_normalisation_exact_table [of "''anywhere''" "''''"] d e
  have 4: "NormalizeSiteSetting ''anywhere'' = SiteSettingUnknown" by blast
  from a b c d 1 2 3 4 show ?thesis by blast
qed

subsection \<open>C7: what the extraction stage attempts\<close>

lemma validPages_eq: "validPages pages = take 10 (filter eligible pages)"
proof -
  have "(\<lambda>page. Error page = '''' \<and> HTML page \<noteq> '''') = eligible"
    by (rule ext) (simp add: eligible_def)
  then show ?thesis
    by (simp add: validPages_def maxJobsToExtract_def Let_def)
qed

text \<open>
  C7: the extraction stage starts a worker exactly for the eligible outcomes (no fetch
  error, non-empty HTML), and for the first ten of them in input order when there are
  more than ten. The jobs the stage returns are what those workers send, in the order of
  delivery.
\<close>

theorem C7_extraction_attempts_first_ten_eligible:
  "validPages pages = take 10 (filter eligible pages) \<and>
   (length (filter eligible pages) \<le> 10 \<longrightarrow> validPages pages = filter eligible pages) \<and>
   (length (filter eligible pages) > 10 \<longrightarrow>
      length (validPages pages) = 10 \<and> prefix (validPages pages) (filter eligible pages)) \<and>
   (delivery_order (extract_order e (length (validPages pages))) (length (validPages pages)) \<longrightarrow>
      mset (extractJobsConcurrently e pages) =
        mset (List.map_filter (extract_worker e) (validPages pages)))"
proof -
  have 1: "validPages pages = take 10 (filter eligible pages)"
    by (rule validPages_eq)
  have 2: "length (filter eligible pages) \<le> 10 \<longrightarrow> validPages pages = filter eligible pages"
    by (simp add: 1)
  have 3: "length (filter eligible pages) > 10 \<longrightarrow>
      length (validPages pages) = 10 \<and> prefix (validPages pages) (filter eligible pages)"
    by (simp add: 1 take_is_prefix)
  have 4: "mset (extractJobsConcurrently e pages) =
        mset (List.map_filter (extract_worker e) (validPages pages))"
    if d: "delivery_order (extract_order e (length (validPages pages))) (length (validPages pages))"
  proof -
    let ?outs = "map (extract_worker e) (validPages pages)"
    have d': "delivery_order (extract_order e (length (validPages pages))) (length ?outs)"
      using d by simp
    have "mset (extractJobsConcurrently e pages) =
          mset (List.map_filter (\<lambda>sent. sent) (fan_in (extract_order e (length (validPages pages))) ?outs))"
      by (simp add: extractJobsConcurrently_def Let_def)
    also have "\<dots> = mset (List.map_filter (\<lambda>sent. sent) ?outs)"
      by (simp only: mset_map_filter fan_in_mset [OF d'])
    also have "\<dots> = mset (List.map_filter (extract_worker e) (validPages pages))"
      by (simp only: mset_map_filter_map)
    finally show ?thesis .
  qed
  from 1 2 3 4 show ?thesis by blast
qed

theorem C7_extraction_attempts_witness:
  "length (filter eligible fetched_pages) \<le> 10 \<and>
   validPages fetched_pages = [page_ok ''https://b.example/2'', page_ok ''https://a.example/1''] \<and>
   length (filter eligible (page_404 ''https://c.example/3'' # numbered_pages 12)) > 10 \<and>
   validPages (page_404 ''https://c.example/3'' # numbered_pages 12) = numbered_pages 10 \<and>
   delivery_order (extract_order env_ok (length (validPages fetched_pages)))
     (length (validPages fetched_pages)) \<and>
   mset (extractJobsConcurrently env_ok fetched_pages) =
     mset [job_of ''https://b.example/2'', job_of ''https://a.example/1'']"
proof -
  have el: "eligible (page_ok u)" "\<not> eligible (page_404 u)" for u
    by (simp_all add: eligible_def page_ok_def page_404_def)
  have f1: "filter eligible fetched_pages =
      [page_ok ''https://b.example/2'', page_ok ''https://a.example/1'']"
    by (simp add: fetched_pages_def el)
  have f2: "filter eligible (page_404 ''https://c.example/3'' # numbered_pages 12) = numbered_pages 12"
    by (simp add: numbered_pages_def el filter_map comp_def)
  have n: "length (numbered_pages 12) = 12" "take 10 (numbered_pages 12) = numbered_pages 10"
    by (simp_all add: numbered_pages_def take_map)
  have o: "extract_order env_ok = (\<lambda>n. rev [0..<n])"
    by (simp add: env_ok_def)
  have d: "delivery_order (extract_order env_ok (length (validPages fetched_pages)))
     (length (validPages fetched_pages))"
    unfolding o by (rule delivery_order_rev)
  have w: "List.map_filter (extract_worker env_ok)
        [page_ok ''https://b.example/2'', page_ok ''https://a.example/1''] =
      [job_of ''https://b.example/2'', job_of ''https://a.example/1'']"
    by (simp add: List.map_filter_def extract_worker_env_ok)
  have A: "length (filter eligible fetched_pages) \<le> 10"
    unfolding f1 by simp
  have C: "length (filter eligible (page_404 ''https://c.example/3'' # numbered_pages 12)) > 10"
    unfolding f2 n by simp
  note T1 = C7_extraction_attempts_first_ten_eligible [of fetched_pages env_ok]
  note T2 = C7_extraction_attempts_first_ten_eligible
    [of "page_404 ''https://c.example/3'' # numbered_pages 12" env_ok]
  from T1 A have "validPages fetched_pages = filter eligible fetched_pages" by blast
  then have B: "validPages fetched_pages =
      [page_ok ''https://b.example/2'', page_ok ''https://a.example/1'']"
    by (simp only: f1)
  from T1 d have "mset (extractJobsConcurrently env_ok fetched_pages) =
        mset (List.map_filter (extract_worker env_ok) (validPages fetched_pages))" by blast
  then have F: "mset (extractJobsConcurrently env_ok fetched_pages) =
     mset [job_of ''https://b.example/2'', job_of ''https://a.example/1'']"
    by (simp only: B w)
  from T2 have "validPages (page_404 ''https://c.example/3'' # numbered_pages 12) =
      take 10 (filter eligible (page_404 ''https://c.example/3'' # numbered_pages 12))"
    by blast
  then have D: "validPages (page_404 ''https://c.example/3'' # numbered_pages 12) = numbered_pages 10"
    by (simp only: f2 n)
  from A B C D d F show ?thesis by blast
qed

subsection \<open>C8: the scoring stage drops nothing\<close>



subsection \<open>C9: empty intermediate results\<close>



subsection \<open>C10: only status 200 is a fetched page\<close>

lemma fetch_not_200:
  assumes "new_request_error e url = None" and "client_Do e url = Inr resp"
    and "StatusCode resp \<noteq> 200"
  shows "fetch_worker e url =
     \<lparr>HTML = '''', URL = url,
      Error = ''fetch failed: page returned status '' @ format_d (StatusCode resp)\<rparr>"
  using assms
  by (simp add: fetch_worker_def FetchURL_def fetch_Execute_def fetchPage_def StatusOK_def
      NewErrorResult_def Let_def)

text \<open>
  C10: the fetch stage accepts status 200 only. For a URL whose response has any other
  status code (201 and 204 included) the outcome is an error outcome with empty HTML: it
  is what \<open>FetchURL\<close> returns, it is not eligible for extraction, and it is the only
  outcome for that URL among the results of the stage.
\<close>

theorem C10_only_status_200_is_success:
  assumes "new_request_error e url = None" and "client_Do e url = Inr resp"
    and "StatusCode resp \<noteq> 200"
  shows "FetchURL e url =
           Inr \<lparr>HTML = '''', URL = url,
                Error = ''fetch failed: page returned status '' @ format_d (StatusCode resp)\<rparr> \<and>
         Error (fetch_worker e url) \<noteq> '''' \<and> HTML (fetch_worker e url) = '''' \<and>
         \<not> eligible (fetch_worker e url) \<and>
         (delivery_order (fetch_order e (length urls)) (length urls) \<longrightarrow>
            (\<forall>r \<in> set (fetchPagesConcurrently e urls).
               URL r = url \<longrightarrow> Error r \<noteq> '''' \<and> HTML r = ''''))"
proof -
  note w = fetch_not_200 [OF assms]
  have 1: "FetchURL e url =
           Inr \<lparr>HTML = '''', URL = url,
                Error = ''fetch failed: page returned status '' @ format_d (StatusCode resp)\<rparr>"
    using assms
    by (simp add: FetchURL_def fetch_Execute_def fetchPage_def StatusOK_def NewErrorResult_def
        Let_def)
  have 2: "Error (fetch_worker e url) \<noteq> ''''" "HTML (fetch_worker e url) = ''''"
    "\<not> eligible (fetch_worker e url)"
    by (simp_all add: w eligible_def)
  have 3: "\<forall>r \<in> set (fetchPagesConcurrently e urls).
               URL r = url \<longrightarrow> Error r \<noteq> '''' \<and> HTML r = ''''"
    if d: "delivery_order (fetch_order e (length urls)) (length urls)"
  proof (intro ballI impI)
    fix r assume r: "r \<in> set (fetchPagesConcurrently e urls)" and u: "URL r = url"
    have "set (fetchPagesConcurrently e urls) = set (map (fetch_worker e) urls)"
      unfolding fetchPagesConcurrently_def by (rule fan_in_set) (use d in simp)
    with r obtain u' where "r = fetch_worker e u'" by auto
    with u have "r = fetch_worker e url" by (simp add: URL_fetch_worker)
    with 2 show "Error r \<noteq> '''' \<and> HTML r = ''''" by simp
  qed
  from 1 2 3 show ?thesis by blast
qed

theorem C10_only_status_200_witness:
  "new_request_error env_204 ''https://a.example/1'' = None \<and>
   client_Do env_204 ''https://a.example/1'' =
     Inr \<lparr>StatusCode = 204, Body = ''<html>job</html>'', BodyError = None\<rparr> \<and>
   FetchURL env_204 ''https://a.example/1'' =
     Inr \<lparr>HTML = '''', URL = ''https://a.example/1'',
          Error = ''fetch failed: page returned status 204''\<rparr> \<and>
   delivery_order (fetch_order env_204 (length found_urls)) (length found_urls) \<and>
   list_all (\<lambda>r. URL r = ''https://a.example/1'' \<longrightarrow> Error r \<noteq> '''' \<and> HTML r = '''')
     (fetchPagesConcurrently env_204 found_urls)"
proof -
  have a: "new_request_error env_204 ''https://a.example/1'' = None"
    by (simp add: env_204_def env_ok_def)
  have b: "client_Do env_204 ''https://a.example/1'' =
     Inr \<lparr>StatusCode = 204, Body = ''<html>job</html>'', BodyError = None\<rparr>"
    by (simp add: env_204_def)
  have c: "StatusCode \<lparr>StatusCode = 204, Body = ''<html>job</html>'', BodyError = None\<rparr> \<noteq> 200"
    by simp
  have o: "fetch_order env_204 = (\<lambda>n. rev [0..<n])"
    by (simp add: env_204_def env_ok_def)
  have d: "delivery_order (fetch_order env_204 (length found_urls)) (length found_urls)"
    unfolding o by (rule delivery_order_rev)
  from C10_only_status_200_is_success [OF a b c, of found_urls] a b d show ?thesis
    by (simp add: format_d_204 list_all_iff)
qed

end
